theory Spec2Isabelle
  imports Complex_Main
begin

section \<open>Conventions of the embedding\<close>

text \<open>
  The scripts compute with Python floats. A finite float is modelled as a \<^typ>\<open>real\<close>
  and its arithmetic as exact; rounding is not modelled. What is modelled is every
  place where the arithmetic can leave the finite numbers: a Python float division by
  zero raises \<open>ZeroDivisionError\<close>, and a numpy scalar division by zero (the values
  that \<open>pandas.Series.std\<close> returns are numpy scalars) yields \<open>nan\<close> or an infinity
  without raising.
\<close>

datatype py_error = ZeroDivisionError

definition py_truediv :: "real \<Rightarrow> real \<Rightarrow> py_error + real" where
  "py_truediv a b = (if b = 0 then Inl ZeroDivisionError else Inr (a / b))"

section \<open>Payoff scenarios of the learning guide\<close>

text \<open>
  \<open>lesson_2_analyze_call_option\<close> and \<open>lesson_3_analyze_put_option\<close> of
  \<open>options_learning_guide.py\<close> run one loop each over a list of
  \<open>(label, stock_price)\<close> scenarios. The three assignments of the loop body are
  three definitions here; a row collects what one iteration prints.
\<close>

definition call_option_value :: "real \<Rightarrow> real \<Rightarrow> real" where
  "call_option_value strike price = max (price - strike) 0"

definition put_option_value :: "real \<Rightarrow> real \<Rightarrow> real" where
  "put_option_value strike price = max (strike - price) 0"

definition profit_loss :: "real \<Rightarrow> real \<Rightarrow> real" where
  "profit_loss option_value premium = option_value - premium"

definition pl_pct :: "real \<Rightarrow> real \<Rightarrow> py_error + real" where
  "pl_pct pl premium =
     (case py_truediv pl premium of Inl e \<Rightarrow> Inl e | Inr q \<Rightarrow> Inr (q * 100))"

record scenario_row =
  row_price :: real
  row_value :: real
  row_pl :: real
  row_pct :: real

definition call_row :: "real \<Rightarrow> real \<Rightarrow> real \<Rightarrow> py_error + scenario_row" where
  "call_row strike premium price =
     (let v = call_option_value strike price;
          pl = profit_loss v premium
      in case pl_pct pl premium of
           Inl e \<Rightarrow> Inl e
         | Inr pct \<Rightarrow> Inr \<lparr>row_price = price, row_value = v, row_pl = pl, row_pct = pct\<rparr>)"

definition put_row :: "real \<Rightarrow> real \<Rightarrow> real \<Rightarrow> py_error + scenario_row" where
  "put_row strike premium price =
     (let v = put_option_value strike price;
          pl = profit_loss v premium
      in case pl_pct pl premium of
           Inl e \<Rightarrow> Inl e
         | Inr pct \<Rightarrow> Inr \<lparr>row_price = price, row_value = v, row_pl = pl, row_pct = pct\<rparr>)"

text \<open>The \<open>for\<close> loop: an exception in one iteration ends the whole loop.\<close>

fun scenario_loop :: "(real \<Rightarrow> py_error + scenario_row) \<Rightarrow> real list \<Rightarrow> py_error + scenario_row list" where
  "scenario_loop body [] = Inr []"
| "scenario_loop body (p # ps) =
     (case body p of
        Inl e \<Rightarrow> Inl e
      | Inr r \<Rightarrow> (case scenario_loop body ps of Inl e \<Rightarrow> Inl e | Inr rs \<Rightarrow> Inr (r # rs)))"

definition call_rows :: "real \<Rightarrow> real \<Rightarrow> real list \<Rightarrow> py_error + scenario_row list" where
  "call_rows strike premium prices = scenario_loop (call_row strike premium) prices"

definition put_rows :: "real \<Rightarrow> real \<Rightarrow> real list \<Rightarrow> py_error + scenario_row list" where
  "put_rows strike premium prices = scenario_loop (put_row strike premium) prices"





definition pl_column :: "py_error + scenario_row list \<Rightarrow> py_error + real list" where
  "pl_column res = (case res of Inl e \<Rightarrow> Inl e | Inr rs \<Rightarrow> Inr (map row_pl rs))"

section \<open>Moneyness labels of the scanner\<close>

text \<open>
  \<open>analyze_options_chain\<close> of \<open>options_scanner.py\<close> returns early when the price
  is \<open>None\<close> or zero, sorts the calls and the puts of the first expiration by strike,
  and prints a row for each contract within 15% of the price. The label is the string
  \<open>ITM -x%\<close>, \<open>ATM\<close> or \<open>OTM +x%\<close>; here it is a constructor that carries the
  number formatted into the string. A contract is its strike.
\<close>

datatype moneyness = is_ITM: ITM real | is_ATM: ATM | is_OTM: OTM real

definition call_moneyness :: "real \<Rightarrow> real \<Rightarrow> moneyness option" where
  "call_moneyness price strike =
     (let distance = strike - price;
          pct = (distance / price) * 100
      in if \<bar>distance\<bar> < price * 0.15
         then Some (if distance < -5 then ITM \<bar>pct\<bar>
                    else if \<bar>distance\<bar> < 2 then ATM
                    else OTM pct)
         else None)"

definition put_moneyness :: "real \<Rightarrow> real \<Rightarrow> moneyness option" where
  "put_moneyness price strike =
     (let distance = price - strike;
          pct = (distance / price) * 100
      in if \<bar>distance\<bar> < price * 0.15
         then Some (if distance < -5 then ITM \<bar>pct\<bar>
                    else if \<bar>distance\<bar> < 2 then ATM
                    else OTM pct)
         else None)"

definition chain_rows :: "(real \<Rightarrow> real \<Rightarrow> moneyness option) \<Rightarrow> real option \<Rightarrow> real list
    \<Rightarrow> (real \<times> moneyness) list option" where
  "chain_rows label price strikes =
     (case price of
        None \<Rightarrow> None
      | Some p \<Rightarrow>
          if p = 0 then None
          else Some (List.map_filter (\<lambda>k. map_option (Pair k) (label p k)) (sort strikes)))"

definition calls_around_price :: "real option \<Rightarrow> real list \<Rightarrow> (real \<times> moneyness) list option" where
  "calls_around_price = chain_rows call_moneyness"

definition puts_around_price :: "real option \<Rightarrow> real list \<Rightarrow> (real \<times> moneyness) list option" where
  "puts_around_price = chain_rows put_moneyness"

text \<open>
  \<open>lesson_1_get_options_chain\<close> of \<open>options_learning_guide.py\<close> marks a strike
  with \<open>*\<close> (near the money) by one comparison.
\<close>

definition near_mark :: "real \<Rightarrow> real \<Rightarrow> bool" where
  "near_mark strike current_price = (\<bar>strike - current_price\<bar> < 5)"

section \<open>Premium estimates of the strategy walkthroughs\<close>

text \<open>
  \<open>advanced_2_covered_call_strategy\<close> keeps the calls whose strike is above the
  price, sorts them by strike and estimates a premium per contract for the first five.
  \<open>advanced_3_protective_put_strategy\<close> keeps the puts whose strike is below the
  price, sorts them by strike in descending order, and estimates a premium for the first
  five from the distance and the days to expiration. A put is a pair of its strike and
  its days to expiration (an \<open>int\<close>, the \<open>days\<close> of a date difference).
\<close>

definition covered_call_est_premium :: "real \<Rightarrow> real \<Rightarrow> real" where
  "covered_call_est_premium strike current_price =
     (let distance = strike - current_price
      in max 0.5 (distance * 0.1) * 100)"

definition protective_put_est_premium :: "real \<Rightarrow> real \<Rightarrow> int \<Rightarrow> real" where
  "protective_put_est_premium strike current_price days_to_exp =
     (let distance = current_price - strike
      in max 1.0 (distance * 0.15 + (real_of_int days_to_exp / 365) * current_price * 0.02) * 100)"

definition protective_put_example_premium :: "real \<Rightarrow> real \<Rightarrow> real" where
  "protective_put_example_premium strike current_price =
     max 1.0 ((current_price - strike) * 0.15) * 100"

definition covered_call_premiums :: "real \<Rightarrow> real list \<Rightarrow> real list option" where
  "covered_call_premiums current_price strikes =
     (let calls = filter (\<lambda>k. k > current_price) strikes
      in if calls = [] then None
         else Some (map (\<lambda>k. covered_call_est_premium k current_price) (take 5 (sort calls))))"

definition protective_put_premiums :: "real \<Rightarrow> (real \<times> int) list \<Rightarrow> real list option" where
  "protective_put_premiums current_price contracts =
     (let puts = filter (\<lambda>c. fst c < current_price) contracts
      in if puts = [] then None
         else Some (map (\<lambda>c. protective_put_est_premium (fst c) current_price (snd c))
                      (take 5 (rev (sort_key fst (rev puts))))))"

section \<open>The volatility rank of the scanner\<close>

text \<open>
  \<open>calculate_iv_rank\<close> of \<open>options_scanner.py\<close> fetches daily bars and computes
  the rank from their closes inside one \<open>try\<close> whose bare \<open>except\<close> returns
  \<open>None\<close>. The fetch is outside the model: the function takes the closes of the bars
  it received, oldest first, and the window \<open>days\<close>.

  The closes are Python floats, so the division of the return computation raises on a
  zero close. \<open>pandas.Series.std\<close> returns a numpy scalar, and so do the products and
  the quotient computed from it: these never raise, and produce \<open>nan\<close> or an
  infinity instead. Such a value is an \<open>npfloat\<close>; signed zeros are not told apart.
\<close>

datatype npfloat = Fin real | NaN | PInf | NInf

fun np_mul :: "npfloat \<Rightarrow> real \<Rightarrow> npfloat" where
  "np_mul (Fin x) c = Fin (x * c)"
| "np_mul NaN c = NaN"
| "np_mul PInf c = (if 0 < c then PInf else if c < 0 then NInf else NaN)"
| "np_mul NInf c = (if 0 < c then NInf else if c < 0 then PInf else NaN)"

fun np_div :: "npfloat \<Rightarrow> npfloat \<Rightarrow> npfloat" where
  "np_div (Fin x) (Fin y) =
     (if y = 0 then (if 0 < x then PInf else if x < 0 then NInf else NaN) else Fin (x / y))"
| "np_div (Fin x) PInf = Fin 0"
| "np_div (Fin x) NInf = Fin 0"
| "np_div PInf (Fin y) = (if 0 \<le> y then PInf else NInf)"
| "np_div NInf (Fin y) = (if 0 \<le> y then NInf else PInf)"
| "np_div a b = NaN"

fun np_less :: "npfloat \<Rightarrow> npfloat \<Rightarrow> bool" where
  "np_less (Fin x) (Fin y) = (x < y)"
| "np_less (Fin x) PInf = True"
| "np_less NInf (Fin y) = True"
| "np_less NInf PInf = True"
| "np_less a b = False"

text \<open>
  The builtins \<open>max(a, b)\<close> and \<open>min(a, b)\<close> keep their first argument unless the
  second compares greater (smaller); a comparison with \<open>nan\<close> is false.
\<close>

definition py_max :: "npfloat \<Rightarrow> npfloat \<Rightarrow> npfloat" where
  "py_max a b = (if np_less a b then b else a)"

definition py_min :: "npfloat \<Rightarrow> npfloat \<Rightarrow> npfloat" where
  "py_min a b = (if np_less b a then b else a)"

text \<open>
  \<open>Series.std\<close> with its default \<open>ddof=1\<close>: the square root of the sum of squared
  deviations from the mean over \<open>count - 1\<close>, and \<open>nan\<close> for fewer than two values.
\<close>

definition mean :: "real list \<Rightarrow> real" where
  "mean xs = sum_list xs / real (length xs)"

definition sample_var :: "real list \<Rightarrow> real" where
  "sample_var xs = (\<Sum>x\<leftarrow>xs. (x - mean xs)\<^sup>2) / real (length xs - 1)"

definition sample_stddev :: "real list \<Rightarrow> real" where
  "sample_stddev xs = sqrt (sample_var xs)"

definition series_std :: "real list \<Rightarrow> npfloat" where
  "series_std xs = (if length xs < 2 then NaN else Fin (sample_stddev xs))"

text \<open>
  The list comprehension
  \<open>[(closes[i] - closes[i-1]) / closes[i-1] for i in range(1, len(closes))]\<close>.
\<close>

fun daily_returns :: "real list \<Rightarrow> py_error + real list" where
  "daily_returns (a # b # cs) =
     (case py_truediv (b - a) a of
        Inl e \<Rightarrow> Inl e
      | Inr r \<Rightarrow> (case daily_returns (b # cs) of Inl e \<Rightarrow> Inl e | Inr rs \<Rightarrow> Inr (r # rs)))"
| "daily_returns cs = Inr []"

text \<open>
  The slice \<open>xs[-days:]\<close>: a negative start counts from the end and is clipped at the
  beginning of the list; \<open>-0\<close> is 0, the whole list.
\<close>

definition slice_from_neg :: "int \<Rightarrow> 'a list \<Rightarrow> 'a list" where
  "slice_from_neg days xs =
     (let n = int (length xs);
          k = - days;
          start = (if k < 0 then max 0 (n + k) else min k n)
      in drop (nat start) xs)"

definition calculate_iv_rank :: "real list \<Rightarrow> int \<Rightarrow> npfloat option" where
  "calculate_iv_rank bars days =
     (if bars = [] \<or> length bars < 20 then None
      else case daily_returns bars of
             Inl e \<Rightarrow> None
           | Inr returns \<Rightarrow>
               let recent_vol = np_mul (np_mul (series_std (slice_from_neg days returns)) (sqrt 252)) 100;
                   all_vol = np_mul (np_mul (series_std returns) (sqrt 252)) 100
               in Some (py_min (Fin 100) (py_max (Fin 0) (np_mul (np_div recent_vol all_vol) 100))))"

text \<open>
  The estimator as the specification words it, for comparison with the code: simple
  returns by index, the volatility of the last \<open>N\<close> returns and of all returns,
  annualised in percent, and the clamped ratio. Its \<open>stddev\<close> is read as the
  sample standard deviation.
\<close>

definition spec_returns :: "real list \<Rightarrow> real list" where
  "spec_returns closes =
     map (\<lambda>i. (closes ! i - closes ! (i - 1)) / closes ! (i - 1)) [1..<length closes]"

definition last_n :: "nat \<Rightarrow> 'a list \<Rightarrow> 'a list" where
  "last_n n xs = drop (length xs - n) xs"

definition spec_recent_vol :: "real list \<Rightarrow> nat \<Rightarrow> real" where
  "spec_recent_vol closes n = sample_stddev (last_n n (spec_returns closes)) * sqrt 252 * 100"

definition spec_full_vol :: "real list \<Rightarrow> real" where
  "spec_full_vol closes = sample_stddev (spec_returns closes) * sqrt 252 * 100"

definition clamp :: "real \<Rightarrow> real \<Rightarrow> real \<Rightarrow> real" where
  "clamp x lo hi = max lo (min x hi)"

definition spec_rank :: "real list \<Rightarrow> nat \<Rightarrow> real" where
  "spec_rank closes n = clamp (spec_recent_vol closes n / spec_full_vol closes * 100) 0 100"

section \<open>Payoff: helper facts\<close>

lemma pl_pct_nonzero:
  "premium \<noteq> 0 \<Longrightarrow> pl_pct pl premium = Inr (pl / premium * 100)"
  by (simp add: pl_pct_def py_truediv_def)

lemma scenario_loop_total:
  assumes "\<And>p. body p = Inr (f p)"
  shows "scenario_loop body ps = Inr (map f ps)"
  by (induction ps) (simp_all add: assms)

lemma call_row_nonzero:
  "premium \<noteq> 0 \<Longrightarrow>
   call_row strike premium price =
     Inr \<lparr>row_price = price, row_value = max (price - strike) 0,
          row_pl = max (price - strike) 0 - premium,
          row_pct = (max (price - strike) 0 - premium) / premium * 100\<rparr>"
  by (simp add: call_row_def Let_def pl_pct_nonzero call_option_value_def profit_loss_def)

lemma put_row_nonzero:
  "premium \<noteq> 0 \<Longrightarrow>
   put_row strike premium price =
     Inr \<lparr>row_price = price, row_value = max (strike - price) 0,
          row_pl = max (strike - price) 0 - premium,
          row_pct = (max (strike - price) 0 - premium) / premium * 100\<rparr>"
  by (simp add: put_row_def Let_def pl_pct_nonzero put_option_value_def profit_loss_def)

lemma call_rows_nonzero:
  assumes "premium \<noteq> 0"
  shows "call_rows strike premium prices =
     Inr (map (\<lambda>p. \<lparr>row_price = p, row_value = max (p - strike) 0,
                      row_pl = max (p - strike) 0 - premium,
                      row_pct = (max (p - strike) 0 - premium) / premium * 100\<rparr>) prices)"
  unfolding call_rows_def
  by (rule scenario_loop_total) (simp add: call_row_nonzero assms)

lemma put_rows_nonzero:
  assumes "premium \<noteq> 0"
  shows "put_rows strike premium prices =
     Inr (map (\<lambda>p. \<lparr>row_price = p, row_value = max (strike - p) 0,
                      row_pl = max (strike - p) 0 - premium,
                      row_pct = (max (strike - p) 0 - premium) / premium * 100\<rparr>) prices)"
  unfolding put_rows_def
  by (rule scenario_loop_total) (simp add: put_row_nonzero assms)

section \<open>Payoff: the claims\<close>

text \<open>
  C1. The option value at expiration is \<open>max (P - K) 0\<close> for a call and
  \<open>max (K - P) 0\<close> for a put, for every strike, premium and price (so in particular
  for \<open>K > 0\<close>, \<open>p \<ge> 0\<close>, \<open>P \<ge> 0\<close>); it is never negative; the long profit
  or loss is that value minus the premium; with a non-zero premium the loop returns
  one such row per price; and the two tables of the example (strike 100, premium 3)
  have the profit-and-loss columns \<open>[-3,-3,0,5,10]\<close> and \<open>[-3,-3,-3,0,7]\<close>.
\<close>

theorem payoff_values:
  "call_option_value K P = max (P - K) 0
   \<and> put_option_value K P = max (K - P) 0
   \<and> 0 \<le> call_option_value K P
   \<and> 0 \<le> put_option_value K P
   \<and> profit_loss (call_option_value K P) p = max (P - K) 0 - p
   \<and> profit_loss (put_option_value K P) p = max (K - P) 0 - p
   \<and> (p \<noteq> 0 \<longrightarrow>
        pl_column (call_rows K p Ps) = Inr (map (\<lambda>P. max (P - K) 0 - p) Ps)
      \<and> pl_column (put_rows K p Ps) = Inr (map (\<lambda>P. max (K - P) 0 - p) Ps))
   \<and> pl_column (call_rows 100 3 [90, 100, 103, 108, 113]) = Inr [-3, -3, 0, 5, 10]
   \<and> pl_column (put_rows 100 3 [113, 108, 100, 97, 90]) = Inr [-3, -3, -3, 0, 7]"
proof -
  have vals: "call_option_value K P = max (P - K) 0" "put_option_value K P = max (K - P) 0"
    by (simp_all add: call_option_value_def put_option_value_def)
  have pls: "profit_loss (call_option_value K P) p = max (P - K) 0 - p"
    "profit_loss (put_option_value K P) p = max (K - P) 0 - p"
    by (simp_all add: profit_loss_def vals)
  have loops: "pl_column (call_rows K p Ps) = Inr (map (\<lambda>P. max (P - K) 0 - p) Ps)"
    "pl_column (put_rows K p Ps) = Inr (map (\<lambda>P. max (K - P) 0 - p) Ps)" if "p \<noteq> 0"
    using that by (simp_all add: pl_column_def call_rows_nonzero put_rows_nonzero comp_def)
  have ex_call: "pl_column (call_rows 100 3 [90, 100, 103, 108, 113]) = Inr [-3, -3, 0, 5, 10]"
    by (simp add: pl_column_def call_rows_nonzero)
  have ex_put: "pl_column (put_rows 100 3 [113, 108, 100, 97, 90]) = Inr [-3, -3, -3, 0, 7]"
    by (simp add: pl_column_def put_rows_nonzero)
  show ?thesis
    using vals pls loops ex_call ex_put by simp
qed

theorem payoff_values_witness:
  "(3::real) \<noteq> 0
   \<and> pl_column (call_rows 100 3 [103, 108]) = Inr [0, 5]
   \<and> pl_column (put_rows 100 3 [97, 90]) = Inr [0, 7]
   \<and> call_option_value 100 108 = 8"
  using payoff_values [of 100 108 3 "[103, 108]"] payoff_values [of 100 108 3 "[97, 90]"]
  by simp

text \<open>
  C2. For a fixed strike and premium the long-call profit or loss is non-decreasing
  in the price, and the long-put profit or loss is non-increasing.
\<close>

theorem profit_loss_monotone:
  assumes "P1 \<le> P2"
  shows "profit_loss (call_option_value K P1) p \<le> profit_loss (call_option_value K P2) p
       \<and> profit_loss (put_option_value K P2) p \<le> profit_loss (put_option_value K P1) p"
  using assms by (simp add: profit_loss_def call_option_value_def put_option_value_def max_def)

theorem profit_loss_monotone_witness:
  "(100::real) \<le> 108
   \<and> profit_loss (call_option_value 100 100) 3 \<le> profit_loss (call_option_value 100 108) 3
   \<and> profit_loss (put_option_value 100 108) 3 \<le> profit_loss (put_option_value 100 100) 3"
  using profit_loss_monotone [of 100 108 100 3] by simp



section \<open>Moneyness: the claims\<close>

lemma call_moneyness_shown:
  "(call_moneyness P K = None) = (\<not> \<bar>K - P\<bar> < P * 0.15)"
  by (simp add: call_moneyness_def Let_def)

lemma put_moneyness_shown:
  "(put_moneyness P K = None) = (\<not> \<bar>P - K\<bar> < P * 0.15)"
  by (simp add: put_moneyness_def Let_def)

text \<open>
  C6, at the failing input. With the price at 100, the call with strike 97 is shown
  (3 is within 15% of 100), has the positive option value 3, and is labelled OTM:
  the distance \<open>-3\<close> is neither below \<open>-5\<close> nor within 2 of zero, so the last
  branch labels it \<open>OTM +-3.0%\<close>. The row is in the chain the function prints.
\<close>

theorem itm_call_labelled_otm:
  "call_moneyness 100 97 = Some (OTM (-3))
   \<and> 0 < call_option_value 97 100
   \<and> calls_around_price (Some 100) [97] = Some [(97, OTM (-3))]"
  by (simp add: call_moneyness_def Let_def call_option_value_def calls_around_price_def
      chain_rows_def List.map_filter_def)

text \<open>
  C7 as stated fails on the code: with the price at 100 the call with strike 99 has
  \<open>K < P\<close> and is labelled ATM, not ITM; and the call with strike 101 is labelled ATM
  although its distance 1 is not below the smaller of 2 and 0.5% of the price.
\<close>

theorem moneyness_thresholds_counterexample:
  "(99::real) < 100 \<and> call_moneyness 100 99 = Some ATM
   \<and> \<not> \<bar>101 - 100 :: real\<bar> < min 2 (0.005 * 100) \<and> call_moneyness 100 101 = Some ATM"
  by (simp add: call_moneyness_def Let_def)

text \<open>
  C7, as the code has it. A call within 15% of the price is labelled ITM exactly when
  its strike is more than 5 below the price, ATM exactly when the strike is within 2 of
  the price, and OTM whenever the strike is at least 2 above the price. For a put the
  distance is \<open>P - K\<close>: ITM exactly when the strike is more than 5 above the price, ATM
  exactly within 2, OTM whenever the strike is at least 2 below the price. A contract
  is shown exactly when its distance is below 15% of the price. The mark of lesson 1 is
  set exactly when the strike is within 5 of the price.
\<close>

theorem moneyness_as_coded:
  "(call_moneyness P K = Some m \<longrightarrow>
      (is_ITM m \<longleftrightarrow> K - P < -5) \<and> (is_ATM m \<longleftrightarrow> \<bar>K - P\<bar> < 2) \<and> (2 \<le> K - P \<longrightarrow> is_OTM m))
   \<and> (put_moneyness P K = Some m' \<longrightarrow>
      (is_ITM m' \<longleftrightarrow> P - K < -5) \<and> (is_ATM m' \<longleftrightarrow> \<bar>P - K\<bar> < 2) \<and> (2 \<le> P - K \<longrightarrow> is_OTM m'))
   \<and> ((\<exists>m. call_moneyness P K = Some m) \<longleftrightarrow> \<bar>K - P\<bar> < P * 0.15)
   \<and> ((\<exists>m. put_moneyness P K = Some m) \<longleftrightarrow> \<bar>P - K\<bar> < P * 0.15)
   \<and> (near_mark K P \<longleftrightarrow> \<bar>K - P\<bar> < 5)"
proof -
  have c: "(is_ITM m \<longleftrightarrow> K - P < -5) \<and> (is_ATM m \<longleftrightarrow> \<bar>K - P\<bar> < 2) \<and> (2 \<le> K - P \<longrightarrow> is_OTM m)"
    if "call_moneyness P K = Some m"
    using that by (auto simp: call_moneyness_def Let_def split: if_splits)
  have p: "(is_ITM m' \<longleftrightarrow> P - K < -5) \<and> (is_ATM m' \<longleftrightarrow> \<bar>P - K\<bar> < 2) \<and> (2 \<le> P - K \<longrightarrow> is_OTM m')"
    if "put_moneyness P K = Some m'"
    using that by (auto simp: put_moneyness_def Let_def split: if_splits)
  have sc: "(\<exists>m. call_moneyness P K = Some m) \<longleftrightarrow> \<bar>K - P\<bar> < P * 0.15"
    using call_moneyness_shown [of P K] by auto
  have sp: "(\<exists>m. put_moneyness P K = Some m) \<longleftrightarrow> \<bar>P - K\<bar> < P * 0.15"
    using put_moneyness_shown [of P K] by auto
  show ?thesis
    using c p sc sp by (simp add: near_mark_def)
qed

theorem moneyness_as_coded_witness:
  "call_moneyness 100 90 = Some (ITM 10) \<and> is_ITM (ITM 10) \<and> (90 - 100 :: real) < -5
   \<and> put_moneyness 100 90 = Some (OTM 10) \<and> is_OTM (OTM 10) \<and> (2::real) \<le> 100 - 90
   \<and> near_mark 103 100"
  using moneyness_as_coded [of 100 90 "ITM 10" "OTM 10"] moneyness_as_coded [of 100 103]
  by (simp add: call_moneyness_def put_moneyness_def Let_def)

section \<open>Premium estimates: the claims\<close>

lemma covered_call_est_premium_linear:
  "K > P \<Longrightarrow> covered_call_est_premium K P = max 50 (10 * \<bar>K - P\<bar> + 0 * (real_of_int d / 365) * P)"
  by (simp add: covered_call_est_premium_def Let_def max_def)

lemma max_times_100: "max a b * 100 = max (a * 100) (b * (100::real))"
  by (simp add: max_def)

lemma protective_put_est_premium_linear:
  assumes "K < P"
  shows "protective_put_est_premium K P d
     = max 100 (15 * \<bar>K - P\<bar> + 2 * (real_of_int d / 365) * P)"
proof -
  have "((P - K) * 0.15 + (real_of_int d / 365) * P * 0.02) * 100
      = 15 * \<bar>K - P\<bar> + 2 * (real_of_int d / 365) * P"
    using assms by (simp add: field_simps)
  then show ?thesis
    by (simp only: protective_put_est_premium_def Let_def max_times_100)
qed

lemma covered_call_est_premium_pos: "50 \<le> covered_call_est_premium K P"
  by (simp add: covered_call_est_premium_def Let_def max_def)

lemma protective_put_est_premium_pos: "100 \<le> protective_put_est_premium K P d"
  by (simp add: protective_put_est_premium_def Let_def max_def)

lemma protective_put_example_premium_linear:
  assumes "K < P"
  shows "protective_put_example_premium K P = max 100 (15 * \<bar>K - P\<bar> + 0 * (real_of_int d / 365) * P)"
proof -
  have "(P - K) * 0.15 * 100 = 15 * \<bar>K - P\<bar> + 0 * (real_of_int d / 365) * P"
    using assms by (simp add: field_simps)
  then show ?thesis
    by (simp only: protective_put_example_premium_def max_times_100)
qed

lemma covered_call_premiums_rows:
  assumes "covered_call_premiums P Ks = Some ps" and "p \<in> set ps"
  shows "\<exists>k\<in>set Ks. P < k \<and> p = covered_call_est_premium k P"
proof -
  from assms(1) have "ps = map (\<lambda>k. covered_call_est_premium k P) (take 5 (sort (filter (\<lambda>k. k > P) Ks)))"
    by (simp add: covered_call_premiums_def Let_def split: if_splits)
  with assms(2) obtain k where k: "k \<in> set (take 5 (sort (filter (\<lambda>k. k > P) Ks)))"
    and p: "p = covered_call_est_premium k P"
    by auto
  from k have "k \<in> set (sort (filter (\<lambda>k. k > P) Ks))"
    by (rule in_set_takeD)
  then have "k \<in> set Ks \<and> P < k" by simp
  with p show ?thesis by blast
qed

lemma protective_put_premiums_rows:
  assumes "protective_put_premiums P cs = Some ps" and "p \<in> set ps"
  shows "\<exists>c\<in>set cs. fst c < P \<and> p = protective_put_est_premium (fst c) P (snd c)"
proof -
  let ?puts = "filter (\<lambda>c. fst c < P) cs"
  from assms(1) have "ps = map (\<lambda>c. protective_put_est_premium (fst c) P (snd c))
      (take 5 (rev (sort_key fst (rev ?puts))))"
    by (simp add: protective_put_premiums_def Let_def split: if_splits)
  with assms(2) obtain c where c: "c \<in> set (take 5 (rev (sort_key fst (rev ?puts))))"
    and p: "p = protective_put_est_premium (fst c) P (snd c)"
    by auto
  from c have "c \<in> set (rev (sort_key fst (rev ?puts)))"
    by (rule in_set_takeD)
  then have "c \<in> set cs \<and> fst c < P" by simp
  with p show ?thesis by blast
qed

text \<open>
  C9. Each estimate has the shape \<open>max floor (distance_factor * \<bar>K - P\<bar> +
  time_factor * (days / 365) * P)\<close> with a positive floor: per contract, the
  covered-call estimate with floor 50, distance factor 10 and time factor 0 (the strikes
  it is applied to lie above the price), the protective-put estimate with floor 100,
  distance factor 15 and time factor 2 and the protective-put example with time factor 0
  (the strikes lie below the price). So every estimate is positive, and so is every
  entry of the two printed tables.
\<close>

theorem premium_estimates:
  "(P < K \<longrightarrow>
      covered_call_est_premium K P = max 50 (10 * \<bar>K - P\<bar> + 0 * (real_of_int d / 365) * P))
   \<and> (K < P \<longrightarrow>
      protective_put_est_premium K P d = max 100 (15 * \<bar>K - P\<bar> + 2 * (real_of_int d / 365) * P)
    \<and> protective_put_example_premium K P = max 100 (15 * \<bar>K - P\<bar> + 0 * (real_of_int d / 365) * P))
   \<and> 0 < covered_call_est_premium K P
   \<and> 0 < protective_put_est_premium K P d
   \<and> 0 < protective_put_example_premium K P
   \<and> (covered_call_premiums P Ks = Some ps \<longrightarrow>
        (\<forall>p\<in>set ps. 0 < p \<and>
           (\<exists>k\<in>set Ks. p = max 50 (10 * \<bar>k - P\<bar> + 0 * (real_of_int d / 365) * P))))
   \<and> (protective_put_premiums P cs = Some qs \<longrightarrow>
        (\<forall>q\<in>set qs. 0 < q \<and>
           (\<exists>c\<in>set cs. q = max 100 (15 * \<bar>fst c - P\<bar> + 2 * (real_of_int (snd c) / 365) * P))))"
proof -
  have pos: "0 < covered_call_est_premium k P" "0 < protective_put_est_premium k P e" for k e
    using covered_call_est_premium_pos [of k P] protective_put_est_premium_pos [of k P e]
    by simp_all
  have pos': "0 < protective_put_example_premium K P"
    by (simp add: protective_put_example_premium_def max_def)
  have cc: "0 < p \<and> (\<exists>k\<in>set Ks. p = max 50 (10 * \<bar>k - P\<bar> + 0 * (real_of_int d / 365) * P))"
    if "covered_call_premiums P Ks = Some ps" "p \<in> set ps" for p
  proof -
    from covered_call_premiums_rows [OF that] obtain k
      where "k \<in> set Ks" "P < k" "p = covered_call_est_premium k P" by blast
    then show ?thesis
      using pos(1) [of k] covered_call_est_premium_linear [of P k d] by blast
  qed
  have pp: "0 < q \<and> (\<exists>c\<in>set cs. q = max 100 (15 * \<bar>fst c - P\<bar> + 2 * (real_of_int (snd c) / 365) * P))"
    if "protective_put_premiums P cs = Some qs" "q \<in> set qs" for q
  proof -
    from protective_put_premiums_rows [OF that] obtain c
      where "c \<in> set cs" "fst c < P" "q = protective_put_est_premium (fst c) P (snd c)" by blast
    then show ?thesis
      using pos(2) [of "fst c" "snd c"] protective_put_est_premium_linear [of "fst c" P "snd c"]
      by blast
  qed
  show ?thesis
    using pos(1) [of K] pos(2) [of K d] pos' cc pp covered_call_est_premium_linear [of P K d]
      protective_put_est_premium_linear [of K P d] protective_put_example_premium_linear [of K P d]
    by blast
qed

theorem premium_estimates_witness:
  "(100::real) < 110 \<and> covered_call_est_premium 110 100 = 100
   \<and> (90::real) < 100 \<and> protective_put_est_premium 90 100 73 = 190
   \<and> covered_call_premiums 100 [95, 110] = Some [100]
   \<and> 0 < covered_call_est_premium 110 100"
  using premium_estimates [of 100 110 73 "[95, 110]" "[100]" "[]" "[]"]
    premium_estimates [of 100 90 73 "[95, 110]" "[100]" "[]" "[]"]
  by (simp add: covered_call_premiums_def Let_def covered_call_est_premium_def)

section \<open>Volatility rank: helper facts\<close>

lemma spec_returns_Cons:
  "spec_returns (a # b # cs) = (b - a) / a # spec_returns (b # cs)"
proof -
  have "[1..<length (a # b # cs)] = 1 # map Suc [1..<length (b # cs)]"
    by (simp add: upt_conv_Cons map_Suc_upt del: upt_Suc)
  moreover have "map (\<lambda>i. ((a # b # cs) ! i - (a # b # cs) ! (i - 1)) / (a # b # cs) ! (i - 1))
        (map Suc [1..<length (b # cs)])
      = map (\<lambda>i. ((b # cs) ! i - (b # cs) ! (i - 1)) / (b # cs) ! (i - 1)) [1..<length (b # cs)]"
    by (auto simp: nth_Cons')
  ultimately show ?thesis
    by (simp add: spec_returns_def del: upt_Suc)
qed

lemma spec_returns_short: "spec_returns [] = []" "spec_returns [c] = []"
  by (simp_all add: spec_returns_def)

lemma length_spec_returns: "length (spec_returns cs) = length cs - 1"
  by (simp add: spec_returns_def)

lemma daily_returns_Inr:
  "0 \<notin> set (butlast cs) \<Longrightarrow> daily_returns cs = Inr (spec_returns cs)"
  by (induction cs rule: daily_returns.induct)
     (simp_all add: spec_returns_Cons spec_returns_short py_truediv_def)

lemma daily_returns_Inl:
  "0 \<in> set (butlast cs) \<Longrightarrow> daily_returns cs = Inl ZeroDivisionError"
proof (induction cs rule: daily_returns.induct)
  case (1 a b cs)
  show ?case
  proof (cases "a = 0")
    case True
    then show ?thesis by (simp add: py_truediv_def)
  next
    case False
    with "1.prems" have "0 \<in> set (butlast (b # cs))" by simp
    moreover from False have "py_truediv (b - a) a = Inr ((b - a) / a)"
      by (simp add: py_truediv_def)
    ultimately have "daily_returns (b # cs) = Inl ZeroDivisionError"
      using "1.IH" by blast
    with False show ?thesis by (simp add: py_truediv_def)
  qed
qed simp_all

lemma daily_returns_cases:
  "daily_returns cs = (if 0 \<in> set (butlast cs) then Inl ZeroDivisionError else Inr (spec_returns cs))"
  by (simp add: daily_returns_Inr daily_returns_Inl)

lemma sum_sq_dev_nonneg: "0 \<le> (\<Sum>x\<leftarrow>xs. (x - m)\<^sup>2)" for m :: real
  by (rule sum_list_nonneg) auto

lemma sample_var_nonneg: "0 \<le> sample_var xs"
  by (simp add: sample_var_def sum_sq_dev_nonneg)

lemma sample_var_pos:
  assumes "x \<in> set xs" "y \<in> set xs" "x \<noteq> y"
  shows "0 < sample_var xs"
proof -
  have len: "2 \<le> length xs"
  proof (rule ccontr)
    assume "\<not> 2 \<le> length xs"
    then have "length xs \<le> 1" by simp
    then obtain z where "set xs \<subseteq> {z}"
      by (cases xs) auto
    with assms show False by auto
  qed
  have "x \<noteq> mean xs \<or> y \<noteq> mean xs" using assms(3) by auto
  then obtain z where z: "z \<in> set xs" "z \<noteq> mean xs" using assms(1,2) by blast
  have "(\<Sum>x\<leftarrow>xs. (x - mean xs)\<^sup>2) \<noteq> 0"
  proof
    assume "(\<Sum>x\<leftarrow>xs. (x - mean xs)\<^sup>2) = 0"
    then have "\<forall>v\<in>set (map (\<lambda>x. (x - mean xs)\<^sup>2) xs). v = 0"
      by (subst (asm) sum_list_nonneg_eq_0_iff) auto
    with z show False by auto
  qed
  moreover have "0 \<le> (\<Sum>x\<leftarrow>xs. (x - mean xs)\<^sup>2)"
    by (rule sum_sq_dev_nonneg)
  ultimately have "0 < (\<Sum>x\<leftarrow>xs. (x - mean xs)\<^sup>2)" by simp
  with len show ?thesis
    by (simp add: sample_var_def)
qed

lemma sample_stddev_pos:
  "x \<in> set xs \<Longrightarrow> y \<in> set xs \<Longrightarrow> x \<noteq> y \<Longrightarrow> 0 < sample_stddev xs"
  by (simp add: sample_stddev_def sample_var_pos)

lemma mean_replicate: "0 < n \<Longrightarrow> mean (replicate n c) = c"
  by (simp add: mean_def sum_list_replicate)

lemma sample_var_replicate: "sample_var (replicate n c) = 0"
proof (cases n)
  case 0
  then show ?thesis by (simp add: sample_var_def)
next
  case (Suc m)
  then have "0 < n" by simp
  then have "mean (replicate n c) = c" by (rule mean_replicate)
  then show ?thesis
    by (simp add: sample_var_def sum_list_replicate map_replicate_const)
qed

lemma sample_stddev_replicate: "sample_stddev (replicate n c) = 0"
  by (simp add: sample_stddev_def sample_var_replicate)

lemma slice_from_neg_all:
  "int (length xs) \<le> days \<Longrightarrow> slice_from_neg days xs = xs"
  by (auto simp: slice_from_neg_def Let_def)

lemma slice_from_neg_last_n:
  "1 \<le> days \<Longrightarrow> slice_from_neg days xs = last_n (nat days) xs"
proof -
  assume "1 \<le> days"
  then have "nat (max 0 (int (length xs) - days)) = length xs - nat days"
    by auto
  with \<open>1 \<le> days\<close> show ?thesis
    by (simp add: slice_from_neg_def last_n_def Let_def)
qed

lemma slice_from_neg_replicate:
  "\<exists>k. slice_from_neg days (replicate n c) = replicate k c"
  by (auto simp: slice_from_neg_def Let_def)

lemma py_clamp_Fin:
  "py_min (Fin 100) (py_max (Fin 0) (Fin x)) = Fin (clamp x 0 100)"
  by (simp add: py_min_def py_max_def clamp_def max_def min_def)

lemma py_clamp_NaN: "py_min (Fin 100) (py_max (Fin 0) NaN) = Fin 0"
  by (simp add: py_min_def py_max_def)

lemma calculate_iv_rank_None:
  "calculate_iv_rank bars days = None \<longleftrightarrow> length bars < 20 \<or> 0 \<in> set (butlast bars)"
  by (auto simp: calculate_iv_rank_def daily_returns_cases Let_def)

lemma calculate_iv_rank_short_history:
  assumes "20 \<le> length bars" "int (length bars) \<le> days + 1"
    and "daily_returns bars = Inr rs"
    and "x \<in> set rs" "y \<in> set rs" "x \<noteq> y"
  shows "calculate_iv_rank bars days = Some (Fin 100)"
proof -
  have rs: "rs = spec_returns bars"
    using assms(3) by (simp add: daily_returns_cases split: if_splits)
  then have len: "length rs = length bars - 1"
    by (simp add: length_spec_returns)
  with assms(1,2) have "int (length rs) \<le> days" by simp
  then have slice: "slice_from_neg days rs = rs"
    by (rule slice_from_neg_all)
  from len assms(1) have "\<not> length rs < 2" by simp
  then have std: "series_std rs = Fin (sample_stddev rs)"
    by (simp add: series_std_def)
  have pos: "0 < sample_stddev rs"
    using assms(4-6) by (rule sample_stddev_pos)
  then have nz: "sample_stddev rs * sqrt 252 * 100 \<noteq> 0" by simp
  have vol: "np_mul (np_mul (series_std rs) (sqrt 252)) 100 = Fin (sample_stddev rs * sqrt 252 * 100)"
    by (simp add: std)
  have "np_mul (np_div (Fin (sample_stddev rs * sqrt 252 * 100))
      (Fin (sample_stddev rs * sqrt 252 * 100))) 100 = Fin 100"
    using nz by (simp only: np_div.simps np_mul.simps if_False div_self) simp
  then have "py_min (Fin 100) (py_max (Fin 0) (np_mul (np_div
      (np_mul (np_mul (series_std (slice_from_neg days rs)) (sqrt 252)) 100)
      (np_mul (np_mul (series_std rs) (sqrt 252)) 100)) 100)) = Fin 100"
    by (simp only: slice vol py_clamp_Fin) (simp add: clamp_def)
  moreover have "\<not> (bars = [] \<or> length bars < 20)" using assms(1) by auto
  ultimately show ?thesis
    unfolding calculate_iv_rank_def Let_def using assms(3) by (simp only: if_False sum.case)
qed

lemma daily_returns_replicate:
  "c \<noteq> 0 \<Longrightarrow> daily_returns (replicate n c) = Inr (replicate (n - 1) 0)"
proof (induction n)
  case 0
  then show ?case by simp
next
  case (Suc n)
  then show ?case
    by (cases n) (simp_all add: py_truediv_def)
qed

lemma calculate_iv_rank_flat:
  assumes "20 \<le> n" "c \<noteq> 0"
  shows "calculate_iv_rank (replicate n c) days = Some (Fin 0)"
proof -
  obtain k where k: "slice_from_neg days (replicate (n - 1) (0::real)) = replicate k 0"
    using slice_from_neg_replicate [of days "n - 1" "0::real"] by blast
  have all: "series_std (replicate (n - 1) 0) = Fin 0"
    using assms(1) by (simp add: series_std_def sample_stddev_replicate)
  have "series_std (replicate k 0) = NaN \<or> series_std (replicate k 0) = Fin 0"
    by (simp add: series_std_def sample_stddev_replicate)
  then have nan: "np_mul (np_div (np_mul (np_mul (series_std (replicate k 0)) (sqrt 252)) 100)
      (Fin 0)) 100 = NaN"
    by auto
  have allv: "np_mul (np_mul (series_std (replicate (n - 1) 0)) (sqrt 252)) 100 = Fin 0"
    by (simp only: all np_mul.simps) simp
  have "py_min (Fin 100) (py_max (Fin 0) (np_mul (np_div
      (np_mul (np_mul (series_std (slice_from_neg days (replicate (n - 1) 0))) (sqrt 252)) 100)
      (np_mul (np_mul (series_std (replicate (n - 1) 0)) (sqrt 252)) 100)) 100)) = Fin 0"
    by (simp only: k allv nan py_clamp_NaN)
  moreover have "\<not> (replicate n c = [] \<or> length (replicate n c) < 20)"
    using assms(1) by auto
  moreover have "daily_returns (replicate n c) = Inr (replicate (n - 1) 0)"
    using assms(2) by (rule daily_returns_replicate)
  ultimately show ?thesis
    unfolding calculate_iv_rank_def Let_def by (simp only: if_False sum.case)
qed

section \<open>Volatility rank: the claims\<close>

text \<open>
  A history of twenty closes alternating between 1 and 2: its nineteen returns
  alternate between \<open>1\<close> and \<open>-1/2\<close>, and with the window 30 the recent
  returns are all the returns.
\<close>

lemma alt_returns:
  "daily_returns [1, 2, 1, 2, 1, 2, 1, 2, 1, 2, 1, 2, 1, 2, 1, 2, 1, 2, 1, 2]
     = Inr [1, -1/2, 1, -1/2, 1, -1/2, 1, -1/2, 1, -1/2, 1, -1/2, 1, -1/2, 1, -1/2, 1, -1/2, 1]"
  by (simp add: py_truediv_def)

lemma alt_rank:
  "calculate_iv_rank [1, 2, 1, 2, 1, 2, 1, 2, 1, 2, 1, 2, 1, 2, 1, 2, 1, 2, 1, 2] 30 = Some (Fin 100)"
  by (rule calculate_iv_rank_short_history [OF _ _ alt_returns, of _ 1 "-1/2"]) simp_all

text \<open>
  C10. A history that passes the length check (at least 20 closes), has at most
  \<open>days + 1\<close> closes (at most 31 with the default window 30), on which the returns
  are computed, and whose returns are not all identical, has the rank exactly 100: the
  slice of recent returns is the whole return series.
\<close>

theorem short_history_rank_100:
  assumes "20 \<le> length closes" and "int (length closes) \<le> days + 1"
    and "daily_returns closes = Inr rs"
    and "\<exists>x\<in>set rs. \<exists>y\<in>set rs. x \<noteq> y"
  shows "calculate_iv_rank closes days = Some (Fin 100)
       \<and> slice_from_neg days rs = rs"
proof -
  from assms(4) obtain x y where "x \<in> set rs" "y \<in> set rs" "x \<noteq> y" by blast
  with assms(1-3) have "calculate_iv_rank closes days = Some (Fin 100)"
    by (rule calculate_iv_rank_short_history)
  moreover have "length rs = length closes - 1"
    using assms(3) by (auto simp: daily_returns_cases length_spec_returns split: if_splits)
  then have "slice_from_neg days rs = rs"
    using assms(1,2) by (intro slice_from_neg_all) simp
  ultimately show ?thesis by simp
qed

theorem short_history_rank_100_witness:
  "calculate_iv_rank [1, 2, 1, 2, 1, 2, 1, 2, 1, 2, 1, 2, 1, 2, 1, 2, 1, 2, 1, 2] 30 = Some (Fin 100)"
proof -
  have h: "\<exists>x\<in>set [1, -1/2, 1, -1/2, 1, -1/2, 1, -1/2, 1, -1/2, 1, -1/2, 1, -1/2, 1, -1/2, 1, -1/2, 1::real].
      \<exists>y\<in>set [1, -1/2, 1, -1/2, 1, -1/2, 1, -1/2, 1, -1/2, 1, -1/2, 1, -1/2, 1, -1/2, 1, -1/2, 1]. x \<noteq> y"
    by (intro bexI [of _ 1] bexI [of _ "-1/2"]) simp_all
  show ?thesis
    using short_history_rank_100 [OF _ _ alt_returns h, of 30] by simp
qed

lemma calculate_iv_rank_formula:
  assumes "calculate_iv_rank closes days = Some r"
    and "2 \<le> days" and "spec_full_vol closes \<noteq> 0"
  shows "r = Fin (spec_rank closes (nat days))"
proof -
  from assms(1) have len: "20 \<le> length closes" and nz: "0 \<notin> set (butlast closes)"
    using calculate_iv_rank_None [of closes days] by auto
  let ?rs = "spec_returns closes"
  have dr: "daily_returns closes = Inr ?rs"
    using nz by (rule daily_returns_Inr)
  have lrs: "19 \<le> length ?rs"
    using len by (simp add: length_spec_returns)
  have slice: "slice_from_neg days ?rs = last_n (nat days) ?rs"
    using assms(2) by (intro slice_from_neg_last_n) simp
  have "length (last_n (nat days) ?rs) = min (nat days) (length ?rs)"
    by (auto simp: last_n_def)
  with lrs assms(2) have "\<not> length (last_n (nat days) ?rs) < 2" by auto
  then have recent: "np_mul (np_mul (series_std (last_n (nat days) ?rs)) (sqrt 252)) 100
      = Fin (spec_recent_vol closes (nat days))"
    by (simp add: series_std_def spec_recent_vol_def)
  from lrs have "\<not> length ?rs < 2" by simp
  then have full: "np_mul (np_mul (series_std ?rs) (sqrt 252)) 100 = Fin (spec_full_vol closes)"
    by (simp add: series_std_def spec_full_vol_def)
  have ratio: "np_mul (np_div (Fin (spec_recent_vol closes (nat days))) (Fin (spec_full_vol closes))) 100
      = Fin (spec_recent_vol closes (nat days) / spec_full_vol closes * 100)"
    using assms(3) by simp
  have "py_min (Fin 100) (py_max (Fin 0) (np_mul (np_div
      (np_mul (np_mul (series_std (slice_from_neg days ?rs)) (sqrt 252)) 100)
      (np_mul (np_mul (series_std ?rs) (sqrt 252)) 100)) 100))
      = Fin (spec_rank closes (nat days))"
    by (simp only: slice recent full ratio py_clamp_Fin spec_rank_def)
  moreover have "\<not> (closes = [] \<or> length closes < 20)" using len by auto
  ultimately have "calculate_iv_rank closes days = Some (Fin (spec_rank closes (nat days)))"
    unfolding calculate_iv_rank_def Let_def using dr by (simp only: if_False sum.case)
  with assms(1) show ?thesis by simp
qed

lemma sample_stddev_zero_replicate:
  assumes "sample_stddev xs = 0"
  shows "\<exists>c. xs = replicate (length xs) c"
proof (cases xs)
  case Nil
  then show ?thesis by simp
next
  case (Cons a as)
  have "y = a" if "y \<in> set xs" for y
  proof (rule ccontr)
    assume "y \<noteq> a"
    moreover have "a \<in> set xs" using Cons by simp
    ultimately have "0 < sample_stddev xs"
      using that sample_stddev_pos by blast
    with assms show False by simp
  qed
  then have "replicate (length xs) a = xs"
    by (intro replicate_length_same) simp
  then show ?thesis by metis
qed

lemma calculate_iv_rank_degenerate:
  assumes "20 \<le> length closes" "0 \<notin> set (butlast closes)"
    and "sample_stddev (spec_returns closes) = 0"
  shows "calculate_iv_rank closes days = Some (Fin 0)"
proof -
  let ?rs = "spec_returns closes"
  from sample_stddev_zero_replicate [OF assms(3)] obtain c
    where c: "?rs = replicate (length ?rs) c" by blast
  obtain k where "slice_from_neg days (replicate (length ?rs) c) = replicate k c"
    using slice_from_neg_replicate [of days "length ?rs" c] by blast
  with c have k: "slice_from_neg days ?rs = replicate k c" by simp
  have "\<not> length ?rs < 2"
    using assms(1) by (simp add: length_spec_returns)
  then have allv: "np_mul (np_mul (series_std ?rs) (sqrt 252)) 100 = Fin 0"
    by (simp add: series_std_def assms(3))
  have "series_std (replicate k c) = NaN \<or> series_std (replicate k c) = Fin 0"
    by (simp add: series_std_def sample_stddev_replicate)
  then have nan: "np_mul (np_div (np_mul (np_mul (series_std (replicate k c)) (sqrt 252)) 100)
      (Fin 0)) 100 = NaN"
    by auto
  have "py_min (Fin 100) (py_max (Fin 0) (np_mul (np_div
      (np_mul (np_mul (series_std (slice_from_neg days ?rs)) (sqrt 252)) 100)
      (np_mul (np_mul (series_std ?rs) (sqrt 252)) 100)) 100)) = Fin 0"
    by (simp only: k allv nan py_clamp_NaN)
  moreover have "\<not> (closes = [] \<or> length closes < 20)"
    using assms(1) by auto
  moreover have "daily_returns closes = Inr ?rs"
    using assms(2) by (rule daily_returns_Inr)
  ultimately show ?thesis
    unfolding calculate_iv_rank_def Let_def by (simp only: if_False sum.case)
qed

lemma spec_full_vol_zero: "spec_full_vol closes = 0 \<longleftrightarrow> sample_stddev (spec_returns closes) = 0"
  by (simp add: spec_full_vol_def)


text \<open>
  C3. Whenever the estimator returns a rank and the window is at least 2, the rank is
  the value of the formula wherever the formula has one: simple returns
  \<open>(close[i] - close[i-1]) / close[i-1]\<close>, the sample standard deviation of the last
  \<open>N\<close> returns and of all returns, each times \<open>sqrt 252\<close> times 100, and their
  ratio times 100 clamped to \<open>[0, 100]\<close>. Where the full-sample volatility is zero,
  and the quotient of the formula has no value, the returned rank is 0.
\<close>

theorem rank_refines_formula:
  assumes "calculate_iv_rank closes days = Some r" and "2 \<le> days"
  shows "(spec_full_vol closes \<noteq> 0 \<longrightarrow> r = Fin (spec_rank closes (nat days)))
       \<and> (spec_full_vol closes = 0 \<longrightarrow> r = Fin 0)"
proof -
  from assms(1) have len: "20 \<le> length closes" and nz: "0 \<notin> set (butlast closes)"
    using calculate_iv_rank_None [of closes days] by auto
  have "r = Fin 0" if "spec_full_vol closes = 0"
    using calculate_iv_rank_degenerate [OF len nz, of days] that assms(1)
    by (simp add: spec_full_vol_zero)
  moreover have "r = Fin (spec_rank closes (nat days))" if "spec_full_vol closes \<noteq> 0"
    using assms that by (rule calculate_iv_rank_formula)
  ultimately show ?thesis by simp
qed

theorem rank_refines_formula_witness:
  "calculate_iv_rank [1, 2, 1, 2, 1, 2, 1, 2, 1, 2, 1, 2, 1, 2, 1, 2, 1, 2, 1, 2] 30 = Some (Fin 100)
   \<and> (2::int) \<le> 30
   \<and> spec_full_vol [1, 2, 1, 2, 1, 2, 1, 2, 1, 2, 1, 2, 1, 2, 1, 2, 1, 2, 1, 2] \<noteq> 0
   \<and> spec_rank [1, 2, 1, 2, 1, 2, 1, 2, 1, 2, 1, 2, 1, 2, 1, 2, 1, 2, 1, 2] 30 = 100"
proof -
  let ?cs = "[1, 2, 1, 2, 1, 2, 1, 2, 1, 2, 1, 2, 1, 2, 1, 2, 1, 2, 1, 2] :: real list"
  have "daily_returns ?cs = Inr (spec_returns ?cs)"
    by (rule daily_returns_Inr) simp
  then have rs: "spec_returns ?cs
      = [1, -1/2, 1, -1/2, 1, -1/2, 1, -1/2, 1, -1/2, 1, -1/2, 1, -1/2, 1, -1/2, 1, -1/2, 1]"
    by (simp only: alt_returns sum.inject)
  have "0 < sample_stddev (spec_returns ?cs)"
    by (rule sample_stddev_pos [of 1 _ "-1/2"]) (simp_all add: rs)
  then have full: "spec_full_vol ?cs \<noteq> 0"
    by (simp add: spec_full_vol_def)
  from rank_refines_formula [OF alt_rank] full
  have "Fin 100 = Fin (spec_rank ?cs (nat 30))" by simp
  then show ?thesis using alt_rank full by simp
qed

text \<open>
  C4 as stated fails on the code: twenty closes of 100 give nineteen returns of 0, both
  volatilities are 0, the numpy quotient is \<open>nan\<close>, \<open>max(0, nan)\<close> is 0, and the
  estimator returns the number 0.
\<close>

theorem flat_history_counterexample:
  "calculate_iv_rank (replicate 20 100) 30 = Some (Fin 0)
   \<and> daily_returns (replicate 20 100) = Inr (replicate 19 0)"
  using calculate_iv_rank_flat [of 20 100 30] daily_returns_replicate [of 100 20] by simp

text \<open>
  C4, as the code has it. With fewer than 20 bars, or with a zero close that a return
  divides by (the exception is swallowed), the estimator returns \<open>None\<close>, not 0 or
  100. For a history of at least 20 equal non-zero closes it returns the number 0, for
  every window.
\<close>

theorem rank_failure_outcomes:
  "(length bars < 20 \<or> 0 \<in> set (butlast bars) \<longrightarrow> calculate_iv_rank bars days = None)
   \<and> (20 \<le> n \<and> c \<noteq> 0 \<longrightarrow> calculate_iv_rank (replicate n c) days = Some (Fin 0))"
  using calculate_iv_rank_None [of bars days] calculate_iv_rank_flat [of n c days] by blast

theorem rank_failure_outcomes_witness:
  "calculate_iv_rank [5, 0, 5] 30 = None
   \<and> (20::nat) \<le> 25 \<and> (7::real) \<noteq> 0 \<and> calculate_iv_rank (replicate 25 7) 30 = Some (Fin 0)"
  using rank_failure_outcomes [of "[5, 0, 5]" 30 25 7] by simp

text \<open>
  C5 as stated fails on the code: a history of 20 closes is shorter than
  \<open>max (2 * 30) 20 = 60\<close>, and the estimator returns the rank 100 for it.
\<close>

theorem minimum_length_counterexample:
  "length [1, 2, 1, 2, 1, 2, 1, 2, 1, 2, 1, 2, 1, 2, 1, 2, 1, 2, 1, 2 :: real] < max (2 * 30) 20
   \<and> calculate_iv_rank [1, 2, 1, 2, 1, 2, 1, 2, 1, 2, 1, 2, 1, 2, 1, 2, 1, 2, 1, 2] 30 = Some (Fin 100)"
  using alt_rank by simp

text \<open>
  C5, as the code has it. The threshold is 20 bars whatever the window: with fewer the
  estimator returns \<open>None\<close>, its only failure outcome; with at least 20 it returns a
  number unless a return divides by a zero close.
\<close>

theorem rank_minimum_length:
  "(length bars < 20 \<longrightarrow> calculate_iv_rank bars days = None)
   \<and> (20 \<le> length bars \<longrightarrow>
        (calculate_iv_rank bars days = None \<longleftrightarrow> 0 \<in> set (butlast bars)))"
  using calculate_iv_rank_None [of bars days] by auto

theorem rank_minimum_length_witness:
  "length [1, 2, 3 :: real] < 20 \<and> calculate_iv_rank [1, 2, 3] 30 = None
   \<and> 20 \<le> length (replicate 20 (3::real)) \<and> calculate_iv_rank (replicate 20 3) 30 \<noteq> None"
proof -
  have "(0::real) \<notin> set (butlast (replicate 20 3))"
    by (auto dest: in_set_butlastD)
  then show ?thesis
    using rank_minimum_length [of "[1, 2, 3]" 30] rank_minimum_length [of "replicate 20 3" 30]
    by simp
qed

end
